theory Spec2Isabelle
  imports
    Complex_Main
    "HOL-Library.AList"
    "HOL-Library.Char_ord"
    "HOL-Library.List_Lexorder"
    "HOL-Library.Sublist"
    "HOL-Library.Multiset"
begin

section \<open>Values, exclusion specs and errors\<close>

text \<open>
  The logger of \<^verbatim>\<open>src/utils/logger.py\<close> stores arbitrary Python objects. The model keeps
  the kinds of value the code dispatches on: \<^verbatim>\<open>None\<close>, integers, floats, strings,
  tensors and the three media wrappers \<^verbatim>\<open>Video\<close>, \<^verbatim>\<open>Figure\<close>, \<^verbatim>\<open>Image\<close>.
  Floats are modelled by exact rationals, so every statement about a mean below is a
  statement of exact arithmetic; rounding of IEEE doubles is outside the model. The
  payloads of tensors and media wrappers are not modelled (no claim reads them), so a
  tensor is only known to be a tensor.
\<close>

datatype pyval =
    VNone
  | VInt int
  | VFloat rat
  | VStr string
  | VTensor
  | VVideo
  | VFigure
  | VImage

text \<open>
  \<^verbatim>\<open>exclude: Optional[Union[str, Tuple[str, ...]]]\<close>: absent, one string, or a
  collection of strings (tuple or set: only membership is ever asked of it).
\<close>

datatype excl = ExNone | ExStr string | ExTuple "string list"

datatype error =
    TypeError
  | ZeroDivisionError
  | ValueError
  | AttributeError
  | NotImplementedError
  | FormatUnsupportedError "string list" string

definition DEBUG :: int where "DEBUG = 10"
definition INFO :: int where "INFO = 20"
definition WARN :: int where "WARN = 30"
definition ERROR :: int where "ERROR = 40"
definition DISABLED :: int where "DISABLED = 50"

section \<open>Python arithmetic on the stored values\<close>

text \<open>
  The three operators of line 397,
  \<^verbatim>\<open>old_val * count / (count + 1) + value / (count + 1)\<close>, with Python's dynamic
  typing: an operand of the wrong type raises \<^verbatim>\<open>TypeError\<close>. The right operand of
  \<^verbatim>\<open>*\<close> and \<^verbatim>\<open>/\<close> is always the integer count.
\<close>

fun py_mul_int :: "pyval \<Rightarrow> int \<Rightarrow> error + pyval" where
  "py_mul_int (VInt a) n = Inr (VInt (a * n))"
| "py_mul_int (VFloat a) n = Inr (VFloat (a * of_int n))"
| "py_mul_int (VStr s) n = Inr (VStr (concat (replicate (nat n) s)))"
| "py_mul_int VTensor n = Inr VTensor"
| "py_mul_int VNone n = Inl TypeError"
| "py_mul_int VVideo n = Inl TypeError"
| "py_mul_int VFigure n = Inl TypeError"
| "py_mul_int VImage n = Inl TypeError"

fun py_truediv_int :: "pyval \<Rightarrow> int \<Rightarrow> error + pyval" where
  "py_truediv_int (VInt a) n =
     (if n = 0 then Inl ZeroDivisionError else Inr (VFloat (of_int a / of_int n)))"
| "py_truediv_int (VFloat a) n =
     (if n = 0 then Inl ZeroDivisionError else Inr (VFloat (a / of_int n)))"
| "py_truediv_int VTensor n = Inr VTensor"
| "py_truediv_int (VStr s) n = Inl TypeError"
| "py_truediv_int VNone n = Inl TypeError"
| "py_truediv_int VVideo n = Inl TypeError"
| "py_truediv_int VFigure n = Inl TypeError"
| "py_truediv_int VImage n = Inl TypeError"

fun py_add :: "pyval \<Rightarrow> pyval \<Rightarrow> error + pyval" where
  "py_add (VInt a) (VInt b) = Inr (VInt (a + b))"
| "py_add (VInt a) (VFloat b) = Inr (VFloat (of_int a + b))"
| "py_add (VFloat a) (VInt b) = Inr (VFloat (a + of_int b))"
| "py_add (VFloat a) (VFloat b) = Inr (VFloat (a + b))"
| "py_add (VStr a) (VStr b) = Inr (VStr (a @ b))"
| "py_add VTensor (VInt b) = Inr VTensor"
| "py_add VTensor (VFloat b) = Inr VTensor"
| "py_add VTensor VTensor = Inr VTensor"
| "py_add (VInt a) VTensor = Inr VTensor"
| "py_add (VFloat a) VTensor = Inr VTensor"
| "py_add a b = Inl TypeError"

text \<open>
  The right-hand side of line 397, evaluated left to right: the product, its quotient,
  the quotient of the new value, the sum. The first failing operator raises.
\<close>

definition mean_update :: "pyval \<Rightarrow> int \<Rightarrow> pyval \<Rightarrow> error + pyval" where
  "mean_update old_val cnt val =
     (case py_mul_int old_val cnt of
        Inl e \<Rightarrow> Inl e
      | Inr scaled \<Rightarrow>
          (case py_truediv_int scaled (cnt + 1) of
             Inl e \<Rightarrow> Inl e
           | Inr lhs \<Rightarrow>
               (case py_truediv_int val (cnt + 1) of
                  Inl e \<Rightarrow> Inl e
                | Inr rhs \<Rightarrow> py_add lhs rhs)))"

section \<open>Dictionaries\<close>

text \<open>
  A Python dict is an association list with distinct keys in insertion order:
  assignment \<^verbatim>\<open>d[k] = v\<close> is \<^const>\<open>AList.update\<close> (replace in place, or append), and
  a lookup is \<^const>\<open>map_of\<close>. The three maps of the logger are
  \<^verbatim>\<open>defaultdict\<close>s: reading a missing key stores the default under it and returns it.
\<close>

type_synonym 'v dict = "(string \<times> 'v) list"

definition dd_get :: "'v \<Rightarrow> 'v dict \<Rightarrow> string \<Rightarrow> 'v \<times> 'v dict" where
  "dd_get dflt d k =
     (case map_of d k of
        Some v \<Rightarrow> (v, d)
      | None \<Rightarrow> (dflt, AList.update k dflt d))"

text \<open>\<^verbatim>\<open>sorted(d.items())\<close>: the keys are distinct, so the pairs are ordered by key.\<close>

definition sorted_items :: "'v dict \<Rightarrow> (string \<times> 'v) list" where
  "sorted_items d = sort_key fst d"

section \<open>The logger core\<close>

text \<open>
  The backend adapters of \<^verbatim>\<open>Logger.output_formats\<close> are a type parameter here; they
  are defined in the next section. \<^verbatim>\<open>Logger.__init__\<close> (lines 356-362) starts with
  three empty maps and level \<^verbatim>\<open>INFO\<close>.
\<close>

record 'f logger =
  name_to_value :: "pyval dict"
  name_to_count :: "int dict"
  name_to_excluded :: "excl dict"
  level :: int
  dir :: "string option"
  output_formats :: "'f list"

definition init_logger :: "string option \<Rightarrow> 'f list \<Rightarrow> 'f logger" where
  "init_logger folder fmts =
     \<lparr>name_to_value = [], name_to_count = [], name_to_excluded = [],
      level = INFO, dir = folder, output_formats = fmts\<rparr>"

text \<open>\<^verbatim>\<open>Logger.record\<close> (lines 378-379): two plain assignments.\<close>

definition record_op :: "'f logger \<Rightarrow> string \<Rightarrow> pyval \<Rightarrow> excl \<Rightarrow> 'f logger" where
  "record_op s key val exclude =
     s\<lparr>name_to_value := AList.update key val (name_to_value s),
       name_to_excluded := AList.update key exclude (name_to_excluded s)\<rparr>"

text \<open>
  \<^verbatim>\<open>Logger.record_mean\<close> (lines 393-399). A raise leaves the object as the statements
  before it made it, so the error case carries the logger too: the two reads of line 396
  have by then stored the defaults \<^verbatim>\<open>0.0\<close> and \<^verbatim>\<open>0\<close> under a missing key.
\<close>

definition record_mean ::
  "'f logger \<Rightarrow> string \<Rightarrow> pyval \<Rightarrow> excl \<Rightarrow> (error \<times> 'f logger) + 'f logger" where
  "record_mean s key val exclude =
     (if val = VNone then
        Inr (s\<lparr>name_to_value := AList.update key VNone (name_to_value s)\<rparr>)
      else
        (case dd_get (VFloat 0) (name_to_value s) key of (old_val, values1) \<Rightarrow>
         case dd_get 0 (name_to_count s) key of (cnt, counts1) \<Rightarrow>
         case mean_update old_val cnt val of
           Inl e \<Rightarrow> Inl (e, s\<lparr>name_to_value := values1, name_to_count := counts1\<rparr>)
         | Inr new_val \<Rightarrow>
             Inr (s\<lparr>name_to_value := AList.update key new_val values1,
                    name_to_count := AList.update key (cnt + 1) counts1,
                    name_to_excluded := AList.update key exclude (name_to_excluded s)\<rparr>)))"

text \<open>\<^verbatim>\<open>Logger.set_level\<close> and \<^verbatim>\<open>Logger.get_dir\<close> (lines 470 and 478).\<close>

definition set_level :: "'f logger \<Rightarrow> int \<Rightarrow> 'f logger" where
  "set_level s lvl = s\<lparr>level := lvl\<rparr>"

definition get_dir :: "'f logger \<Rightarrow> string option" where
  "get_dir s = dir s"


section \<open>Backend adapters\<close>

text \<open>
  Formatting done by the Python interpreter, not by this repository, is a parameter of
  the model: \<open>fmt_g\<close> stands for the format spec \<^verbatim>\<open><8.3g\<close> of line 164 and \<open>py_str\<close>
  for the builtin \<^verbatim>\<open>str\<close> of line 166.
\<close>

record builtins =
  fmt_g :: "rat \<Rightarrow> string"
  py_str :: "pyval \<Rightarrow> string"

text \<open>
  A text file object: what has been written to it, and whether it has been closed.
  Writing to a closed file raises \<^verbatim>\<open>ValueError\<close>.
\<close>

record textfile =
  written :: string
  is_closed :: bool

definition file_write :: "textfile \<Rightarrow> string \<Rightarrow> error + textfile" where
  "file_write f txt =
     (if is_closed f then Inl ValueError else Inr (f\<lparr>written := written f @ txt\<rparr>))"

subsection \<open>The human-readable table: \<^verbatim>\<open>HumanOutputFormat\<close>\<close>

text \<open>
  The field \<open>warned\<close> collects the messages passed to \<^verbatim>\<open>warnings.warn\<close> by this
  adapter. The object holds no backend name: the instances made for \<^verbatim>\<open>"stdout"\<close> and
  for \<^verbatim>\<open>"log"\<close> (lines 332-335) differ in their file only.
\<close>

record human =
  max_length :: int
  file_obj :: textfile
  own_file :: bool
  warned :: "string list"

text \<open>
  The test of line 150. Python's \<^verbatim>\<open>in\<close> on a string is a substring test, on a tuple
  or set a membership test; \<^verbatim>\<open>is not None\<close> is checked first, so \<^verbatim>\<open>in\<close> is never
  asked of \<^verbatim>\<open>None\<close>.
\<close>

fun py_in :: "string \<Rightarrow> excl \<Rightarrow> bool" where
  "py_in t (ExStr s) = sublist t s"
| "py_in t (ExTuple ts) = (t \<in> set ts)"
| "py_in t ExNone = False"

definition human_excluded :: "excl \<Rightarrow> bool" where
  "human_excluded excluded =
     (excluded \<noteq> ExNone \<and> (py_in ''stdout'' excluded \<or> py_in ''log'' excluded))"

text \<open>\<^verbatim>\<open>string[:n]\<close>: a negative bound counts from the end of the string.\<close>

definition py_slice_to :: "int \<Rightarrow> string \<Rightarrow> string" where
  "py_slice_to n str =
     (if 0 \<le> n then take (nat n) str else take (nat (int (length str) + n)) str)"

text \<open>\<^verbatim>\<open>HumanOutputFormat._truncate\<close> (lines 203-205).\<close>

definition human_truncate :: "int \<Rightarrow> string \<Rightarrow> string" where
  "human_truncate m str =
     (if int (length str) > m then py_slice_to (m - 3) str @ ''...'' else str)"

text \<open>\<^verbatim>\<open>str.find\<close> of one character: the first index, or \<open>-1\<close>.\<close>

fun py_find :: "char \<Rightarrow> string \<Rightarrow> int" where
  "py_find c [] = - 1"
| "py_find c (x # xs) =
     (if x = c then 0 else (let i = py_find c xs in if i < 0 then - 1 else i + 1))"

text \<open>
  Lines 168-178 for one key that is not skipped: the current tag, the set of tags seen,
  and the rows appended to \<^verbatim>\<open>key2str\<close>, which is a list: nothing compares a new row
  with the rows already there.
\<close>

definition human_rows ::
  "int \<Rightarrow> string \<Rightarrow> string \<Rightarrow> string option \<Rightarrow> string set \<Rightarrow>
   string option \<times> string set \<times> (string \<times> string) list" where
  "human_rows m key value_str tag tags =
     (let slash = py_find CHR ''/'' key;
          tag1 = (if slash > 0 then Some (py_slice_to (slash + 1) key) else tag);
          fresh = (slash > 0 \<and> py_slice_to (slash + 1) key \<notin> tags);
          tags1 = (if fresh then insert (py_slice_to (slash + 1) key) tags else tags);
          header = (if fresh then [(human_truncate m (py_slice_to (slash + 1) key), [])]
                    else []);
          key1 = (case tag1 of
                    None \<Rightarrow> key
                  | Some t \<Rightarrow> if sublist t key then ''   '' @ drop (length t) key else key)
      in (tag1, tags1, header @ [(human_truncate m key1, human_truncate m value_str)]))"

text \<open>Lines 162-166: a float is formatted with \<^verbatim>\<open><8.3g\<close>, anything else with \<^verbatim>\<open>str\<close>.\<close>

definition format_value :: "builtins \<Rightarrow> pyval \<Rightarrow> string" where
  "format_value b val = (case val of VFloat x \<Rightarrow> fmt_g b x | _ \<Rightarrow> py_str b val)"

text \<open>
  The loop of lines 146-178 over the zipped, sorted items, from given values of the three
  local variables \<^verbatim>\<open>tag\<close>, \<^verbatim>\<open>tags\<close> and \<^verbatim>\<open>key2str\<close> to their values after the loop.
\<close>

fun human_loop ::
  "builtins \<Rightarrow> int \<Rightarrow> ((string \<times> pyval) \<times> (string \<times> excl)) list \<Rightarrow>
   string option \<Rightarrow> string set \<Rightarrow> (string \<times> string) list \<Rightarrow>
   error + string option \<times> string set \<times> (string \<times> string) list" where
  "human_loop b m [] tag tags key2str = Inr (tag, tags, key2str)"
| "human_loop b m (((key, val), (uu, excluded)) # rest) tag tags key2str =
     (if human_excluded excluded then human_loop b m rest tag tags key2str
      else if val = VVideo then Inl (FormatUnsupportedError [''stdout'', ''log''] ''video'')
      else if val = VFigure then Inl (FormatUnsupportedError [''stdout'', ''log''] ''figure'')
      else if val = VImage then Inl (FormatUnsupportedError [''stdout'', ''log''] ''image'')
      else
        (case human_rows m key (format_value b val) tag tags of
           (tag1, tags1, rows) \<Rightarrow> human_loop b m rest tag1 tags1 (key2str @ rows)))"

text \<open>
  Lines 185-197: the table. The widths are \<^verbatim>\<open>max(map(len, ...))\<close> over a non-empty
  list of lengths, which is the fold of \<open>max\<close> from 0.
\<close>

definition newline :: string where
  "newline = [CHR 0x0A]"

fun join_with :: "string \<Rightarrow> string list \<Rightarrow> string" where
  "join_with sep [] = []"
| "join_with sep [l] = l"
| "join_with sep (l # ls) = l @ sep @ join_with sep ls"

definition human_table :: "(string \<times> string) list \<Rightarrow> string" where
  "human_table key2str =
     (let key_width = fold max (map (length \<circ> fst) key2str) 0;
          val_width = fold max (map (length \<circ> snd) key2str) 0;
          dashes = replicate (key_width + val_width + 7) CHR ''-'';
          row = (\<lambda>(key, val).
                   ''| '' @ key @ replicate (key_width - length key) CHR '' '' @ '' | ''
                   @ val @ replicate (val_width - length val) CHR '' '' @ '' |'')
      in join_with newline ([dashes] @ map row key2str @ [dashes]) @ newline)"

text \<open>\<^verbatim>\<open>HumanOutputFormat.write\<close> (lines 141-200).\<close>

definition human_write ::
  "builtins \<Rightarrow> human \<Rightarrow> pyval dict \<Rightarrow> excl dict \<Rightarrow> int \<Rightarrow> error + human" where
  "human_write b h key_values key_excluded step =
     (case human_loop b (max_length h)
             (zip (sorted_items key_values) (sorted_items key_excluded)) None {} [] of
        Inl e \<Rightarrow> Inl e
      | Inr (tag, tags, key2str) \<Rightarrow>
          if length key2str = 0 then
            Inr (h\<lparr>warned := warned h @ [''Tried to write empty key-value dict'']\<rparr>)
          else
            (case file_write (file_obj h) (human_table key2str) of
               Inl e \<Rightarrow> Inl e
             | Inr f \<Rightarrow> Inr (h\<lparr>file_obj := f\<rparr>)))"

text \<open>\<^verbatim>\<open>HumanOutputFormat.write_sequence\<close> (lines 208-214) and \<^verbatim>\<open>close\<close> (220-221).\<close>

definition human_write_sequence :: "human \<Rightarrow> string list \<Rightarrow> error + human" where
  "human_write_sequence h sequence =
     (case file_write (file_obj h) (join_with '' '' sequence @ newline) of
        Inl e \<Rightarrow> Inl e
      | Inr f \<Rightarrow> Inr (h\<lparr>file_obj := f\<rparr>))"

definition human_close :: "human \<Rightarrow> human" where
  "human_close h = (if own_file h then h\<lparr>file_obj := (file_obj h)\<lparr>is_closed := True\<rparr>\<rparr> else h)"

subsection \<open>\<^verbatim>\<open>TensorBoardOutputFormat\<close> and \<^verbatim>\<open>WANDBOutputFormat\<close>\<close>

text \<open>
  The summary writer and the \<^verbatim>\<open>wandb\<close> module are external; the model records the
  calls made on them. A TensorBoard adapter is its writer: the calls received so far,
  or \<open>None\<close> once \<^verbatim>\<open>close\<close> has set \<^verbatim>\<open>self.writer = None\<close>, after which any
  method call on it raises \<^verbatim>\<open>AttributeError\<close>.
\<close>

datatype tb_call =
    Add_text string string int
  | Add_scalar string pyval int
  | Add_histogram string int
  | Add_video string int
  | Add_figure string int
  | Add_image string int
  | Flush

text \<open>\<^verbatim>\<open>isinstance(value, np.ScalarType)\<close>: Python and numpy scalars, strings included.\<close>

fun is_ScalarType :: "pyval \<Rightarrow> bool" where
  "is_ScalarType (VInt a) = True"
| "is_ScalarType (VFloat a) = True"
| "is_ScalarType (VStr s) = True"
| "is_ScalarType v = False"

text \<open>The loop of lines 243-269: the calls made for the zipped, sorted items.\<close>

fun tensorboard_loop ::
  "((string \<times> pyval) \<times> (string \<times> excl)) list \<Rightarrow> int \<Rightarrow> tb_call list" where
  "tensorboard_loop [] step = []"
| "tensorboard_loop (((key, val), (uu, excluded)) # rest) step =
     (if excluded \<noteq> ExNone \<and> py_in ''tensorboard'' excluded then tensorboard_loop rest step
      else
        (case val of
           VStr s \<Rightarrow> [Add_text key s step]
         | VInt a \<Rightarrow> [Add_scalar key val step]
         | VFloat a \<Rightarrow> [Add_scalar key val step]
         | VTensor \<Rightarrow> [Add_histogram key step]
         | VVideo \<Rightarrow> [Add_video key step]
         | VFigure \<Rightarrow> [Add_figure key step]
         | VImage \<Rightarrow> [Add_image key step]
         | VNone \<Rightarrow> [])
        @ tensorboard_loop rest step)"

text \<open>
  \<^verbatim>\<open>TensorBoardOutputFormat.write\<close> (lines 243-272): the final \<^verbatim>\<open>flush\<close> is always
  reached, so a closed adapter raises whatever the maps hold.
\<close>

definition tensorboard_write ::
  "tb_call list option \<Rightarrow> pyval dict \<Rightarrow> excl dict \<Rightarrow> int \<Rightarrow> error + tb_call list option" where
  "tensorboard_write writer key_values key_excluded step =
     (case writer of
        None \<Rightarrow> Inl AttributeError
      | Some calls \<Rightarrow>
          Inr (Some (calls
                 @ tensorboard_loop (zip (sorted_items key_values) (sorted_items key_excluded)) step
                 @ [Flush])))"

datatype wandb_item = W_scalar pyval | W_histogram | W_video | W_image

text \<open>
  The loop of lines 296-314 builds \<^verbatim>\<open>wandb_dict\<close>; a \<^verbatim>\<open>Figure\<close> and \<^verbatim>\<open>None\<close> add
  nothing. \<^verbatim>\<open>WANDBOutputFormat.write\<close> then passes the dict to \<^verbatim>\<open>wandb.log\<close>; the
  adapter is modelled by the list of dicts logged.
\<close>

fun wandb_loop ::
  "((string \<times> pyval) \<times> (string \<times> excl)) list \<Rightarrow> wandb_item dict \<Rightarrow> wandb_item dict" where
  "wandb_loop [] wandb_dict = wandb_dict"
| "wandb_loop (((key, val), (uu, excluded)) # rest) wandb_dict =
     (if excluded \<noteq> ExNone \<and> py_in ''wandb'' excluded then wandb_loop rest wandb_dict
      else if is_ScalarType val then wandb_loop rest (AList.update key (W_scalar val) wandb_dict)
      else if val = VTensor then wandb_loop rest (AList.update key W_histogram wandb_dict)
      else if val = VVideo then wandb_loop rest (AList.update key W_video wandb_dict)
      else if val = VImage then wandb_loop rest (AList.update key W_image wandb_dict)
      else wandb_loop rest wandb_dict)"

definition wandb_write ::
  "wandb_item dict list \<Rightarrow> pyval dict \<Rightarrow> excl dict \<Rightarrow> int \<Rightarrow> wandb_item dict list" where
  "wandb_write logged key_values key_excluded step =
     logged @ [wandb_loop (zip (sorted_items key_values) (sorted_items key_excluded)) []]"

subsection \<open>The adapters as one type\<close>

text \<open>
  \<open>KVWriter_base\<close> is an object of the base class \<^verbatim>\<open>KVWriter\<close> itself (or of a
  subclass that overrides nothing): its \<^verbatim>\<open>write\<close> and \<^verbatim>\<open>close\<close> raise
  \<^verbatim>\<open>NotImplementedError\<close> (lines 92 and 98). Every adapter is a \<^verbatim>\<open>KVWriter\<close>; only
  the human-readable one is a \<^verbatim>\<open>SeqWriter\<close> too.
\<close>

datatype adapter =
    KVWriter_base
  | HumanOutputFormat human
  | TensorBoardOutputFormat "tb_call list option"
  | WANDBOutputFormat "wandb_item dict list"

fun isinstance_KVWriter :: "adapter \<Rightarrow> bool" where
  "isinstance_KVWriter f = True"

fun isinstance_SeqWriter :: "adapter \<Rightarrow> bool" where
  "isinstance_SeqWriter (HumanOutputFormat h) = True"
| "isinstance_SeqWriter f = False"

fun adapter_write ::
  "builtins \<Rightarrow> adapter \<Rightarrow> pyval dict \<Rightarrow> excl dict \<Rightarrow> int \<Rightarrow> error + adapter" where
  "adapter_write b KVWriter_base kv ke step = Inl NotImplementedError"
| "adapter_write b (HumanOutputFormat h) kv ke step =
     (case human_write b h kv ke step of
        Inl e \<Rightarrow> Inl e
      | Inr h' \<Rightarrow> Inr (HumanOutputFormat h'))"
| "adapter_write b (TensorBoardOutputFormat w) kv ke step =
     (case tensorboard_write w kv ke step of
        Inl e \<Rightarrow> Inl e
      | Inr w' \<Rightarrow> Inr (TensorBoardOutputFormat w'))"
| "adapter_write b (WANDBOutputFormat l) kv ke step =
     Inr (WANDBOutputFormat (wandb_write l kv ke step))"

fun adapter_write_sequence :: "adapter \<Rightarrow> string list \<Rightarrow> error + adapter" where
  "adapter_write_sequence (HumanOutputFormat h) sequence =
     (case human_write_sequence h sequence of
        Inl e \<Rightarrow> Inl e
      | Inr h' \<Rightarrow> Inr (HumanOutputFormat h'))"
| "adapter_write_sequence f sequence = Inl NotImplementedError"

text \<open>
  \<^verbatim>\<open>close\<close> of each class: lines 98, 220-221, 278-280 and 320.
\<close>

fun adapter_close :: "adapter \<Rightarrow> error + adapter" where
  "adapter_close KVWriter_base = Inl NotImplementedError"
| "adapter_close (HumanOutputFormat h) = Inr (HumanOutputFormat (human_close h))"
| "adapter_close (TensorBoardOutputFormat w) = Inr (TensorBoardOutputFormat None)"
| "adapter_close (WANDBOutputFormat l) = Inr (WANDBOutputFormat l)"

section \<open>Dumping, logging and closing\<close>

text \<open>
  The loop of lines 407-409. When a \<^verbatim>\<open>write\<close> raises, the adapters before it have
  written, the others have not been called, and the exception leaves the loop.
\<close>

fun write_formats ::
  "builtins \<Rightarrow> adapter list \<Rightarrow> pyval dict \<Rightarrow> excl dict \<Rightarrow> int \<Rightarrow>
   (error \<times> adapter list) + adapter list" where
  "write_formats b [] kv ke step = Inr []"
| "write_formats b (f # fs) kv ke step =
     (if isinstance_KVWriter f then
        (case adapter_write b f kv ke step of
           Inl e \<Rightarrow> Inl (e, f # fs)
         | Inr f' \<Rightarrow>
             (case write_formats b fs kv ke step of
                Inl (e, fs') \<Rightarrow> Inl (e, f' # fs')
              | Inr fs' \<Rightarrow> Inr (f' # fs')))
      else
        (case write_formats b fs kv ke step of
           Inl (e, fs') \<Rightarrow> Inl (e, f # fs')
         | Inr fs' \<Rightarrow> Inr (f # fs')))"

text \<open>
  \<^verbatim>\<open>Logger.dump\<close> (lines 405-413). There is no \<^verbatim>\<open>try\<close> around the loop: the three
  \<^verbatim>\<open>clear()\<close> calls are reached only when every \<^verbatim>\<open>write\<close> has returned.
\<close>

definition dump ::
  "builtins \<Rightarrow> adapter logger \<Rightarrow> int \<Rightarrow> (error \<times> adapter logger) + adapter logger" where
  "dump b s step =
     (if level s = DISABLED then Inr s
      else
        (case write_formats b (output_formats s) (name_to_value s) (name_to_excluded s) step of
           Inl (e, fs') \<Rightarrow> Inl (e, s\<lparr>output_formats := fs'\<rparr>)
         | Inr fs' \<Rightarrow>
             Inr (s\<lparr>output_formats := fs', name_to_value := [], name_to_count := [],
                    name_to_excluded := []\<rparr>)))"

text \<open>\<^verbatim>\<open>Logger._do_log\<close> (lines 494-496) and \<^verbatim>\<open>Logger.log\<close> (lines 424-425).\<close>

fun do_log_formats :: "adapter list \<Rightarrow> string list \<Rightarrow> (error \<times> adapter list) + adapter list" where
  "do_log_formats [] args = Inr []"
| "do_log_formats (f # fs) args =
     (if isinstance_SeqWriter f then
        (case adapter_write_sequence f args of
           Inl e \<Rightarrow> Inl (e, f # fs)
         | Inr f' \<Rightarrow>
             (case do_log_formats fs args of
                Inl (e, fs') \<Rightarrow> Inl (e, f' # fs')
              | Inr fs' \<Rightarrow> Inr (f' # fs')))
      else
        (case do_log_formats fs args of
           Inl (e, fs') \<Rightarrow> Inl (e, f # fs')
         | Inr fs' \<Rightarrow> Inr (f # fs')))"

definition log_op ::
  "builtins \<Rightarrow> adapter logger \<Rightarrow> pyval list \<Rightarrow> int \<Rightarrow>
   (error \<times> adapter logger) + adapter logger" where
  "log_op b s args lvl =
     (if level s \<le> lvl then
        (case do_log_formats (output_formats s) (map (py_str b) args) of
           Inl (e, fs') \<Rightarrow> Inl (e, s\<lparr>output_formats := fs'\<rparr>)
         | Inr fs' \<Rightarrow> Inr (s\<lparr>output_formats := fs'\<rparr>))
      else Inr s)"

text \<open>
  \<^verbatim>\<open>Logger.close\<close> (lines 484-485): a plain loop, so a \<^verbatim>\<open>close\<close> that raises ends it.
\<close>

fun close_formats :: "adapter list \<Rightarrow> (error \<times> adapter list) + adapter list" where
  "close_formats [] = Inr []"
| "close_formats (f # fs) =
     (case adapter_close f of
        Inl e \<Rightarrow> Inl (e, f # fs)
      | Inr f' \<Rightarrow>
          (case close_formats fs of
             Inl (e, fs') \<Rightarrow> Inl (e, f' # fs')
           | Inr fs' \<Rightarrow> Inr (f' # fs')))"

definition close_op :: "adapter logger \<Rightarrow> (error \<times> adapter logger) + adapter logger" where
  "close_op s =
     (case close_formats (output_formats s) of
        Inl (e, fs') \<Rightarrow> Inl (e, s\<lparr>output_formats := fs'\<rparr>)
      | Inr fs' \<Rightarrow> Inr (s\<lparr>output_formats := fs'\<rparr>))"

section \<open>Notions used in the statements\<close>









text \<open>
  Concrete objects for the examples: an interpreter whose \<^verbatim>\<open>str\<close> prints a string as
  itself (the other formats are placeholders, no example reads them), a table adapter
  with the default \<^verbatim>\<open>max_length\<close> of 36 that owns an empty open file, and a new
  TensorBoard adapter.
\<close>

definition sample_builtins :: builtins where
  "sample_builtins =
     \<lparr>fmt_g = (\<lambda>x. ''<float>''),
      py_str = (\<lambda>v. case v of VStr s \<Rightarrow> s | VNone \<Rightarrow> ''None'' | _ \<Rightarrow> ''<object>'')\<rparr>"

definition sample_human :: human where
  "sample_human =
     \<lparr>max_length = 36, file_obj = \<lparr>written = [], is_closed = False\<rparr>,
      own_file = True, warned = []\<rparr>"

definition sample_tensorboard :: adapter where
  "sample_tensorboard = TensorBoardOutputFormat (Some [])"

section \<open>Auxiliary facts\<close>

subsection \<open>The running mean\<close>








subsection \<open>The loops over the adapters\<close>

lemma close_formats_Inr:
  "close_formats fs = Inr fs' \<Longrightarrow> map adapter_close fs = map Inr fs'"
  by (induction fs arbitrary: fs') (auto split: sum.splits)

lemma close_formats_Inl:
  "close_formats fs = Inl (e, fs') \<Longrightarrow>
     \<exists>i<length fs. adapter_close (fs ! i) = Inl e
        \<and> map adapter_close (take i fs) = map Inr (take i fs')
        \<and> drop i fs' = drop i fs"
proof (induction fs arbitrary: fs')
  case Nil
  then show ?case by simp
next
  case (Cons f fs)
  show ?case
  proof (cases "adapter_close f")
    case (Inl e0)
    with Cons.prems have "e0 = e" "fs' = f # fs" by simp_all
    with Inl show ?thesis by (intro exI[of _ 0]) simp
  next
    case (Inr f')
    with Cons.prems obtain fs1 where 1: "close_formats fs = Inl (e, fs1)" and 2: "fs' = f' # fs1"
      by (auto split: sum.splits)
    from Cons.IH[OF 1] obtain i where i: "i < length fs" "adapter_close (fs ! i) = Inl e"
      "map adapter_close (take i fs) = map Inr (take i fs1)" "drop i fs1 = drop i fs"
      by blast
    show ?thesis
      using i Inr 2 by (intro exI[of _ "Suc i"]) simp
  qed
qed

lemma close_formats_total:
  "\<forall>f\<in>set fs. \<exists>f'. adapter_close f = Inr f' \<Longrightarrow> \<exists>fs'. close_formats fs = Inr fs'"
  by (induction fs) (auto split: sum.splits)

lemma write_formats_Inl:
  "write_formats b fs kv ke step = Inl (e, fs') \<Longrightarrow>
     \<exists>f\<in>set fs. adapter_write b f kv ke step = Inl e"
  by (induction fs arbitrary: fs') (auto split: sum.splits if_splits)

lemma write_formats_Inr:
  "write_formats b fs kv ke step = Inr fs' \<Longrightarrow> f \<in> set fs \<Longrightarrow>
     \<exists>f'. adapter_write b f kv ke step = Inr f'"
  by (induction fs arbitrary: fs') (auto split: sum.splits if_splits)

lemma write_formats_raises:
  assumes "f \<in> set fs" and "adapter_write b f kv ke step = Inl e"
  shows "\<exists>e' fs'. write_formats b fs kv ke step = Inl (e', fs')"
proof (cases "write_formats b fs kv ke step")
  case (Inl a)
  then show ?thesis by (cases a) simp
next
  case (Inr fs')
  from write_formats_Inr[OF Inr assms(1)] assms(2) show ?thesis by simp
qed

subsection \<open>The table of the human-readable adapter\<close>













section \<open>The claims about the logger core\<close>



text \<open>
  Claim C10. \<^verbatim>\<open>record_mean(k, None)\<close> always returns, and in the state it leaves every
  later \<^verbatim>\<open>record_mean(k, v)\<close> with a value \<open>v\<close> other than \<^verbatim>\<open>None\<close> raises
  \<^verbatim>\<open>TypeError\<close> (the product \<^verbatim>\<open>None * count\<close> of line 397) without accumulating: the
  stored value of \<open>k\<close> is still \<^verbatim>\<open>None\<close> and the exclusion map is untouched.
\<close>

theorem record_mean_after_none_raises:
  "(\<exists>s1. record_mean s k VNone e = Inr s1) \<and>
   (\<forall>s1 v e'. record_mean s k VNone e = Inr s1 \<and> v \<noteq> VNone \<longrightarrow>
      (\<exists>s2. record_mean s1 k v e' = Inl (TypeError, s2)
         \<and> map_of (name_to_value s2) k = Some VNone
         \<and> name_to_excluded s2 = name_to_excluded s1))"
  by (auto simp: record_mean_def dd_get_def AList.update_conv' mean_update_def
           split: option.splits)

text \<open>
  On a new logger, \<^verbatim>\<open>record_mean("loss", None)\<close> followed by
  \<^verbatim>\<open>record_mean("loss", 2.0)\<close>: the second call raises \<^verbatim>\<open>TypeError\<close>.
\<close>

theorem record_mean_after_none_raises_witness:
  "\<exists>s2. record_mean
          \<lparr>name_to_value = [(''loss'', VNone)], name_to_count = [], name_to_excluded = [],
           level = 20, dir = None, output_formats = ([] :: adapter list)\<rparr>
          ''loss'' (VFloat 2) ExNone = Inl (TypeError, s2)
       \<and> map_of (name_to_value s2) ''loss'' = Some VNone"
proof -
  have "record_mean (init_logger None ([] :: adapter list)) ''loss'' VNone ExNone
          = Inr \<lparr>name_to_value = [(''loss'', VNone)], name_to_count = [], name_to_excluded = [],
                 level = 20, dir = None, output_formats = ([] :: adapter list)\<rparr>"
    by (simp add: record_mean_def init_logger_def INFO_def)
  with record_mean_after_none_raises[of "init_logger None ([] :: adapter list)" "''loss''" ExNone]
  show ?thesis by blast
qed



text \<open>
  Claim C6 at a failing input. After \<^verbatim>\<open>record("loss", 1.0)\<close>, the call
  \<^verbatim>\<open>record_mean("loss", None, exclude="stdout")\<close> returns at line 395, before the
  assignment of line 399: the stored exclusion of \<^verbatim>\<open>"loss"\<close> is still \<^verbatim>\<open>None\<close>, not
  \<^verbatim>\<open>"stdout"\<close>.
\<close>

theorem record_mean_none_ignores_exclude:
  "record_mean (record_op (init_logger None ([] :: adapter list)) ''loss'' (VFloat 1) ExNone)
       ''loss'' VNone (ExStr ''stdout'')
     = Inr \<lparr>name_to_value = [(''loss'', VNone)], name_to_count = [],
            name_to_excluded = [(''loss'', ExNone)],
            level = 20, dir = None, output_formats = []\<rparr>"
  by (simp add: record_mean_def record_op_def init_logger_def INFO_def)

text \<open>
  Claim C4 at a failing input. On a new logger, \<^verbatim>\<open>record_mean("loss", None)\<close> leaves
  \<^verbatim>\<open>"loss"\<close> in the value map with no entry in the exclusion map.
\<close>

theorem record_mean_none_breaks_exclusion_invariant:
  "record_mean (init_logger None ([] :: adapter list)) ''loss'' VNone ExNone
     = Inr \<lparr>name_to_value = [(''loss'', VNone)], name_to_count = [], name_to_excluded = [],
            level = 20, dir = None, output_formats = []\<rparr>
   \<and> map_of [(''loss'', VNone)] ''loss'' = Some VNone
   \<and> map_of ([] :: excl dict) ''loss'' = None"
  by (simp add: record_mean_def init_logger_def INFO_def)

section \<open>The claims about dumping and closing\<close>

text \<open>
  Claim C1, as the code has it. When the level is not \<^verbatim>\<open>DISABLED\<close> and \<^verbatim>\<open>dump(step)\<close>
  returns, the value map, the count map and the exclusion map are empty. When
  \<^verbatim>\<open>dump(step)\<close> raises, the error is the one raised by the \<^verbatim>\<open>write\<close> of one of the
  registered adapters, and the three maps are left as they were: the clear is skipped.
  Whenever the \<^verbatim>\<open>write\<close> of some registered adapter raises on the current maps and
  the level is not \<^verbatim>\<open>DISABLED\<close>, \<^verbatim>\<open>dump\<close> raises. At level \<^verbatim>\<open>DISABLED\<close>,
  \<^verbatim>\<open>dump\<close> returns without changing anything.
\<close>

theorem dump_clears_after_writes:
  "(level s \<noteq> DISABLED \<and> dump b s step = Inr s' \<longrightarrow>
       name_to_value s' = [] \<and> name_to_count s' = [] \<and> name_to_excluded s' = [])
   \<and> (dump b s step = Inl (e, s') \<longrightarrow>
        (\<exists>f\<in>set (output_formats s).
            adapter_write b f (name_to_value s) (name_to_excluded s) step = Inl e)
        \<and> name_to_value s' = name_to_value s \<and> name_to_count s' = name_to_count s
        \<and> name_to_excluded s' = name_to_excluded s)
   \<and> (level s \<noteq> DISABLED
        \<and> (\<exists>f\<in>set (output_formats s). \<exists>e0.
              adapter_write b f (name_to_value s) (name_to_excluded s) step = Inl e0) \<longrightarrow>
        (\<exists>e1 s1. dump b s step = Inl (e1, s1)))
   \<and> (level s = DISABLED \<longrightarrow> dump b s step = Inr s)"
proof (intro conjI impI)
  assume "level s \<noteq> DISABLED \<and> dump b s step = Inr s'"
  then show "name_to_value s' = []" "name_to_count s' = []" "name_to_excluded s' = []"
    by (auto simp: dump_def split: sum.splits)
next
  assume a: "dump b s step = Inl (e, s')"
  then obtain fs'
    where w: "write_formats b (output_formats s) (name_to_value s) (name_to_excluded s) step
                = Inl (e, fs')"
      and s': "s' = s\<lparr>output_formats := fs'\<rparr>"
    by (auto simp: dump_def split: sum.splits if_splits)
  from write_formats_Inl[OF w]
  show "\<exists>f\<in>set (output_formats s).
            adapter_write b f (name_to_value s) (name_to_excluded s) step = Inl e" .
  from s' show "name_to_value s' = name_to_value s" "name_to_count s' = name_to_count s"
    "name_to_excluded s' = name_to_excluded s" by simp_all
next
  assume "level s \<noteq> DISABLED
        \<and> (\<exists>f\<in>set (output_formats s). \<exists>e0.
              adapter_write b f (name_to_value s) (name_to_excluded s) step = Inl e0)"
  then show "\<exists>e1 s1. dump b s step = Inl (e1, s1)"
    using write_formats_raises[of _ "output_formats s" b "name_to_value s" "name_to_excluded s" step]
    by (fastforce simp: dump_def)
next
  assume "level s = DISABLED" then show "dump b s step = Inr s" by (simp add: dump_def)
qed

text \<open>
  A dump to a TensorBoard adapter that returns with empty maps, a dump to a table adapter
  that raises on a \<^verbatim>\<open>Video\<close> value, and a dump at level \<^verbatim>\<open>DISABLED\<close>.
\<close>

theorem dump_clears_after_writes_witness:
  "name_to_value \<lparr>name_to_value = [], name_to_count = [], name_to_excluded = [],
       level = 20, dir = None,
       output_formats = [TensorBoardOutputFormat (Some [Add_scalar ''loss'' (VFloat 1) 3, Flush])]\<rparr> = []
   \<and> adapter_write sample_builtins (HumanOutputFormat sample_human)
          [(''clip'', VVideo)] [(''clip'', ExNone)] 0
        = Inl (FormatUnsupportedError [''stdout'', ''log''] ''video'')
   \<and> dump sample_builtins
        (set_level (record_op (init_logger None [sample_tensorboard]) ''loss'' (VFloat 1) ExNone)
           DISABLED) 3
      = Inr (set_level (record_op (init_logger None [sample_tensorboard]) ''loss'' (VFloat 1) ExNone)
               DISABLED)"
proof -
  let ?s1 = "record_op (init_logger None [sample_tensorboard]) ''loss'' (VFloat 1) ExNone"
  let ?s1' = "\<lparr>name_to_value = [], name_to_count = [], name_to_excluded = [],
       level = 20, dir = None,
       output_formats = [TensorBoardOutputFormat (Some [Add_scalar ''loss'' (VFloat 1) 3, Flush])]\<rparr>"
  let ?s2 = "record_op (init_logger None [HumanOutputFormat sample_human]) ''clip'' VVideo ExNone"
  let ?e2 = "FormatUnsupportedError [''stdout'', ''log''] ''video''"
  have d1: "level ?s1 \<noteq> DISABLED \<and> dump sample_builtins ?s1 3 = Inr ?s1'"
    by code_simp
  have d2: "dump sample_builtins ?s2 0 = Inl (?e2, ?s2)"
    by code_simp
  have d3: "level (set_level ?s1 DISABLED) = DISABLED"
    by (simp add: set_level_def)
  have v2: "output_formats ?s2 = [HumanOutputFormat sample_human]"
    "name_to_value ?s2 = [(''clip'', VVideo)]" "name_to_excluded ?s2 = [(''clip'', ExNone)]"
    by (simp_all add: record_op_def init_logger_def)
  from dump_clears_after_writes[of ?s1 sample_builtins 3 ?s1' ?e2, THEN conjunct1, THEN mp, OF d1]
  have a: "name_to_value ?s1' = []" by (rule conjunct1)
  from dump_clears_after_writes[of ?s2 sample_builtins 0 ?s2 ?e2, THEN conjunct2, THEN conjunct1,
          THEN mp, OF d2]
  have b: "adapter_write sample_builtins (HumanOutputFormat sample_human)
          [(''clip'', VVideo)] [(''clip'', ExNone)] 0 = Inl ?e2"
    unfolding v2 by simp
  from dump_clears_after_writes[of "set_level ?s1 DISABLED" sample_builtins 3 ?s1' ?e2,
          THEN conjunct2, THEN conjunct2, THEN conjunct2, THEN mp, OF d3]
  have c: "dump sample_builtins (set_level ?s1 DISABLED) 3 = Inr (set_level ?s1 DISABLED)" .
  from a b c show ?thesis by (intro conjI)
qed

text \<open>
  Claim C1 as stated fails. After \<^verbatim>\<open>record("clip", Video(...))\<close>, \<^verbatim>\<open>dump(0)\<close> to a
  table adapter raises \<^verbatim>\<open>FormatUnsupportedError\<close> at line 154, and the value map and
  the exclusion map still hold \<^verbatim>\<open>"clip"\<close> afterwards.
\<close>

theorem dump_keeps_maps_when_write_raises:
  "dump sample_builtins
     (record_op (init_logger None [HumanOutputFormat sample_human]) ''clip'' VVideo ExNone) 0
   = Inl (FormatUnsupportedError [''stdout'', ''log''] ''video'',
          \<lparr>name_to_value = [(''clip'', VVideo)], name_to_count = [],
           name_to_excluded = [(''clip'', ExNone)], level = 20, dir = None,
           output_formats = [HumanOutputFormat sample_human]\<rparr>)"
  by code_simp

text \<open>
  Claim C7, as the code has it. \<^verbatim>\<open>Logger.close()\<close> closes the adapters in
  registration order. When it returns, every adapter has been closed. When it raises,
  the error is that of the first adapter whose \<^verbatim>\<open>close\<close> raises: the adapters before it
  have been closed, that adapter and those after it are as they were, their \<^verbatim>\<open>close\<close>
  not attempted. When no adapter's \<^verbatim>\<open>close\<close> raises, \<^verbatim>\<open>Logger.close()\<close> returns.
\<close>

theorem close_until_first_raise:
  "(close_op s = Inr s' \<longrightarrow>
      map adapter_close (output_formats s) = map Inr (output_formats s'))
   \<and> (close_op s = Inl (e, s') \<longrightarrow>
        (\<exists>i<length (output_formats s).
            adapter_close (output_formats s ! i) = Inl e
            \<and> map adapter_close (take i (output_formats s)) = map Inr (take i (output_formats s'))
            \<and> drop i (output_formats s') = drop i (output_formats s)))
   \<and> ((\<forall>f\<in>set (output_formats s). \<exists>f'. adapter_close f = Inr f') \<longrightarrow>
        (\<exists>s1. close_op s = Inr s1))"
proof (intro conjI impI)
  assume "close_op s = Inr s'"
  then obtain fs' where "close_formats (output_formats s) = Inr fs'" "s' = s\<lparr>output_formats := fs'\<rparr>"
    by (auto simp: close_op_def split: sum.splits)
  then show "map adapter_close (output_formats s) = map Inr (output_formats s')"
    using close_formats_Inr by simp
next
  assume "close_op s = Inl (e, s')"
  then obtain fs' where "close_formats (output_formats s) = Inl (e, fs')" "s' = s\<lparr>output_formats := fs'\<rparr>"
    by (auto simp: close_op_def split: sum.splits)
  then show "\<exists>i<length (output_formats s).
            adapter_close (output_formats s ! i) = Inl e
            \<and> map adapter_close (take i (output_formats s)) = map Inr (take i (output_formats s'))
            \<and> drop i (output_formats s') = drop i (output_formats s)"
    using close_formats_Inl[of "output_formats s" e fs'] by simp
next
  assume "\<forall>f\<in>set (output_formats s). \<exists>f'. adapter_close f = Inr f'"
  from close_formats_total[OF this] show "\<exists>s1. close_op s = Inr s1"
    by (auto simp: close_op_def)
qed

text \<open>
  A logger with a table adapter and a TensorBoard adapter closes both; with a base
  \<^verbatim>\<open>KVWriter\<close> between them, \<^verbatim>\<open>close\<close> raises \<^verbatim>\<open>NotImplementedError\<close> there.
\<close>

theorem close_until_first_raise_witness:
  "map adapter_close [HumanOutputFormat sample_human, sample_tensorboard]
     = map Inr [HumanOutputFormat (human_close sample_human), TensorBoardOutputFormat None]
   \<and> (\<exists>i<length [HumanOutputFormat sample_human, KVWriter_base, sample_tensorboard].
         adapter_close ([HumanOutputFormat sample_human, KVWriter_base, sample_tensorboard] ! i)
           = Inl NotImplementedError
         \<and> drop i [HumanOutputFormat (human_close sample_human), KVWriter_base, sample_tensorboard]
           = drop i [HumanOutputFormat sample_human, KVWriter_base, sample_tensorboard])
   \<and> (\<exists>s1. close_op (init_logger None [HumanOutputFormat sample_human, sample_tensorboard]) = Inr s1)"
proof -
  let ?ok = "init_logger None [HumanOutputFormat sample_human, sample_tensorboard]"
  let ?ok' = "?ok\<lparr>output_formats :=
                 [HumanOutputFormat (human_close sample_human), TensorBoardOutputFormat None]\<rparr>"
  let ?bad = "init_logger None [HumanOutputFormat sample_human, KVWriter_base, sample_tensorboard]"
  let ?bad' = "?bad\<lparr>output_formats :=
                 [HumanOutputFormat (human_close sample_human), KVWriter_base, sample_tensorboard]\<rparr>"
  have c1: "close_op ?ok = Inr ?ok'"
    by (simp add: close_op_def init_logger_def sample_tensorboard_def)
  have c2: "close_op ?bad = Inl (NotImplementedError, ?bad')"
    by (simp add: close_op_def init_logger_def sample_tensorboard_def)
  have c3: "\<forall>f\<in>set (output_formats ?ok). \<exists>f'. adapter_close f = Inr f'"
    by (simp add: init_logger_def sample_tensorboard_def)
  from close_until_first_raise[of ?ok ?ok' NotImplementedError, THEN conjunct1, THEN mp, OF c1]
  have a: "map adapter_close [HumanOutputFormat sample_human, sample_tensorboard]
     = map Inr [HumanOutputFormat (human_close sample_human), TensorBoardOutputFormat None]"
    by (simp add: init_logger_def)
  from close_until_first_raise[of ?bad ?bad' NotImplementedError, THEN conjunct2, THEN conjunct1,
         THEN mp, OF c2]
  have b: "\<exists>i<length [HumanOutputFormat sample_human, KVWriter_base, sample_tensorboard].
         adapter_close ([HumanOutputFormat sample_human, KVWriter_base, sample_tensorboard] ! i)
           = Inl NotImplementedError
         \<and> drop i [HumanOutputFormat (human_close sample_human), KVWriter_base, sample_tensorboard]
           = drop i [HumanOutputFormat sample_human, KVWriter_base, sample_tensorboard]"
    by (simp add: init_logger_def) blast
  from close_until_first_raise[of ?ok ?ok' NotImplementedError, THEN conjunct2, THEN conjunct2,
         THEN mp, OF c3]
  have c: "\<exists>s1. close_op ?ok = Inr s1" .
  from a b c show ?thesis by (intro conjI)
qed

text \<open>
  Claim C7 as stated fails. With the adapters \<^verbatim>\<open>[table, KVWriter(), tensorboard]\<close>,
  \<^verbatim>\<open>Logger.close()\<close> closes the file of the table adapter, raises
  \<^verbatim>\<open>NotImplementedError\<close> from line 98, and never closes the TensorBoard adapter, whose
  writer is still there.
\<close>

theorem close_skips_adapters_after_raise:
  "close_op (init_logger None [HumanOutputFormat sample_human, KVWriter_base, sample_tensorboard])
   = Inl (NotImplementedError,
          \<lparr>name_to_value = [], name_to_count = [], name_to_excluded = [], level = 20, dir = None,
           output_formats =
             [HumanOutputFormat (sample_human\<lparr>file_obj := \<lparr>written = [], is_closed = True\<rparr>\<rparr>),
              KVWriter_base, TensorBoardOutputFormat (Some [])]\<rparr>)"
  by code_simp

section \<open>The claims about the adapters\<close>






text \<open>
  Claim C5 at a failing input. After \<^verbatim>\<open>record("b", 2.0, exclude="tensorboard")\<close>,
  \<^verbatim>\<open>record("c", 3.0)\<close> and \<^verbatim>\<open>record_mean("a", None)\<close> the value map has the keys
  \<^verbatim>\<open>a, b, c\<close> and the exclusion map the keys \<^verbatim>\<open>b, c\<close> only. \<^verbatim>\<open>dump(7)\<close> zips the two
  sorted item lists by position (lines 243-245), so \<^verbatim>\<open>a\<close> meets the exclusion of
  \<^verbatim>\<open>b\<close> and \<^verbatim>\<open>b\<close> that of \<^verbatim>\<open>c\<close>: the TensorBoard adapter receives
  \<^verbatim>\<open>add_scalar("b", 2.0, 7)\<close> although \<^verbatim>\<open>b\<close> is excluded for \<^verbatim>\<open>"tensorboard"\<close>.
\<close>

theorem excluded_key_written_to_tensorboard:
  "record_mean
     (record_op
        (record_op (init_logger None [sample_tensorboard]) ''b'' (VFloat 2) (ExStr ''tensorboard''))
        ''c'' (VFloat 3) ExNone)
     ''a'' VNone ExNone
   = Inr \<lparr>name_to_value = [(''b'', VFloat 2), (''c'', VFloat 3), (''a'', VNone)],
          name_to_count = [],
          name_to_excluded = [(''b'', ExStr ''tensorboard''), (''c'', ExNone)],
          level = 20, dir = None, output_formats = [sample_tensorboard]\<rparr>
   \<and> dump sample_builtins
        \<lparr>name_to_value = [(''b'', VFloat 2), (''c'', VFloat 3), (''a'', VNone)],
         name_to_count = [],
         name_to_excluded = [(''b'', ExStr ''tensorboard''), (''c'', ExNone)],
         level = 20, dir = None, output_formats = [sample_tensorboard]\<rparr> 7
   = Inr \<lparr>name_to_value = [], name_to_count = [], name_to_excluded = [],
          level = 20, dir = None,
          output_formats = [TensorBoardOutputFormat (Some [Add_scalar ''b'' (VFloat 2) 7, Flush])]\<rparr>"
  by code_simp

end
